theory Spec2Isabelle
  imports Complex_Main
begin

section \<open>JavaScript values, errors and the operators the program uses\<close>

text \<open>
  TypeScript types are erased at run time, so whatever comes out of \<^verbatim>\<open>JSON.parse\<close>
  or out of a provider's reply is an untyped JavaScript value.

  A text the program reads or writes is a \<open>string\<close>: the list of its code units, each
  below 256. A string value whose code units are all below 256 is \<open>JString\<close>; one with
  a code unit above 255, which \<^verbatim>\<open>JSON.parse\<close> makes from an escape, is \<open>JWide\<close> with
  the list of its code units, and an object with such a key is \<open>JObjectW\<close>, its keys
  being string values. A member list keeps every binding in source order, and a read
  takes the last one.

  A finite number is the rational it is equal to; the two zeros are one value, as they
  are for \<^verbatim>\<open>===\<close> and for truthiness. A number literal of the program stands for its
  decimal value, as \<^verbatim>\<open>JSON.stringify\<close> writes it.
\<close>

datatype jsval =
    JUndefined
  | JNull
  | JBool bool
  | JNumber rat
  | JString string
  | JArray "jsval list"
  | JObject "(string \<times> jsval) list"
  | JInfinity
  | JNegInfinity
  | JWide "nat list"
  | JObjectW "(jsval \<times> jsval) list"

text \<open>
  A thrown exception or a rejected promise. \<open>ApiError p v\<close> is
  \<^verbatim>\<open>new Error(`${p}${v}`)\<close> with the interpolated value kept as it is.
\<close>

datatype error =
    SyntaxError
  | TypeError
  | Error string
  | ApiError string jsval

text \<open>\<^verbatim>\<open>await\<close> of a promise, followed by the rest of the function: a rejection propagates.\<close>

definition andThen :: "error + 'a \<Rightarrow> ('a \<Rightarrow> error + 'b) \<Rightarrow> error + 'b" where
  "andThen r f = (case r of Inl e \<Rightarrow> Inl e | Inr v \<Rightarrow> f v)"

text \<open>JavaScript truthiness and the operator \<^verbatim>\<open>||\<close>.\<close>

fun truthy :: "jsval \<Rightarrow> bool" where
  "truthy JUndefined = False"
| "truthy JNull = False"
| "truthy (JBool b) = b"
| "truthy (JNumber n) = (n \<noteq> 0)"
| "truthy (JString s) = (s \<noteq> [])"
| "truthy (JArray xs) = True"
| "truthy (JObject ms) = True"
| "truthy JInfinity = True"
| "truthy JNegInfinity = True"
| "truthy (JWide us) = (us \<noteq> [])"
| "truthy (JObjectW ms) = True"

definition js_or :: "jsval \<Rightarrow> jsval \<Rightarrow> jsval" where
  "js_or a b = (if truthy a then a else b)"

text \<open>
  Reading a property \<^verbatim>\<open>v.k\<close>: a TypeError on \<^verbatim>\<open>undefined\<close> and \<^verbatim>\<open>null\<close>, the
  last binding of the key in an object, \<^verbatim>\<open>undefined\<close> otherwise. The keys this program
  reads are not members of a built-in prototype.
\<close>

fun own :: "(string \<times> jsval) list \<Rightarrow> string \<Rightarrow> jsval" where
  "own ms k = (case map_of (rev ms) k of None \<Rightarrow> JUndefined | Some v \<Rightarrow> v)"

definition ownW :: "(jsval \<times> jsval) list \<Rightarrow> string \<Rightarrow> jsval" where
  "ownW ms k = (case map_of (rev ms) (JString k) of None \<Rightarrow> JUndefined | Some v \<Rightarrow> v)"

fun get :: "jsval \<Rightarrow> string \<Rightarrow> error + jsval" where
  "get JUndefined k = Inl TypeError"
| "get JNull k = Inl TypeError"
| "get (JObject ms) k = Inr (own ms k)"
| "get (JObjectW ms) k = Inr (ownW ms k)"
| "get v k = Inr JUndefined"

text \<open>Reading \<^verbatim>\<open>v[0]\<close>.\<close>

fun index0 :: "jsval \<Rightarrow> error + jsval" where
  "index0 JUndefined = Inl TypeError"
| "index0 JNull = Inl TypeError"
| "index0 (JArray xs) = Inr (case xs of [] \<Rightarrow> JUndefined | x # _ \<Rightarrow> x)"
| "index0 (JString s) = Inr (case s of [] \<Rightarrow> JUndefined | c # _ \<Rightarrow> JString [c])"
| "index0 (JObject ms) = Inr (own ms ''0'')"
| "index0 (JWide us) =
     Inr (case us of [] \<Rightarrow> JUndefined
          | u # _ \<Rightarrow> if u < 256 then JString [char_of u] else JWide [u])"
| "index0 (JObjectW ms) = Inr (ownW ms ''0'')"
| "index0 v = Inr JUndefined"

text \<open>Reading \<^verbatim>\<open>v.length\<close> of a value that is neither \<^verbatim>\<open>undefined\<close> nor \<^verbatim>\<open>null\<close>.\<close>

fun js_length :: "jsval \<Rightarrow> jsval" where
  "js_length (JArray xs) = JNumber (of_nat (length xs))"
| "js_length (JString s) = JNumber (of_nat (length s))"
| "js_length (JObject ms) = own ms ''length''"
| "js_length (JWide us) = JNumber (of_nat (length us))"
| "js_length (JObjectW ms) = ownW ms ''length''"
| "js_length v = JUndefined"

text \<open>
  \<^verbatim>\<open>a?.k\<close>: \<^verbatim>\<open>undefined\<close> when \<open>a\<close> is \<^verbatim>\<open>undefined\<close> or \<^verbatim>\<open>null\<close>, and what
  \<^verbatim>\<open>a.k\<close> reads otherwise.
\<close>

definition opt_get :: "jsval \<Rightarrow> string \<Rightarrow> jsval" where
  "opt_get a k = (case get a k of Inl e \<Rightarrow> JUndefined | Inr v \<Rightarrow> v)"

text \<open>The values whose properties can be read: all but \<^verbatim>\<open>undefined\<close> and \<^verbatim>\<open>null\<close>.\<close>

definition readable :: "jsval \<Rightarrow> bool" where
  "readable v = (v \<noteq> JUndefined \<and> v \<noteq> JNull)"

section \<open>The provider transports (services/llm)\<close>

record LLMConfig =
  provider :: string
  apiKey :: string
  model :: "string option"

text \<open>
  One call of \<^verbatim>\<open>fetch\<close>: the request as the code builds it (\<open>body\<close> is the object
  handed to \<^verbatim>\<open>JSON.stringify\<close>), and what the network answers. The network is a
  parameter \<open>fetch\<close> of every transport, and every transport returns, beside its
  result, the list of the requests it issued.
\<close>

record request =
  url :: string
  http_method :: string
  headers :: "(string \<times> string) list"
  body :: jsval

record response =
  ok :: bool
  statusText :: string
  json :: "error + jsval"

type_synonym network = "request \<Rightarrow> error + response"

text \<open>\<^verbatim>\<open>config.model || DEFAULT_MODEL\<close>\<close>

definition model_or :: "string option \<Rightarrow> string \<Rightarrow> string" where
  "model_or m d = (case m of None \<Rightarrow> d | Some s \<Rightarrow> if s = [] then d else s)"

text \<open>\<^verbatim>\<open>error.error?.message || response.statusText\<close>\<close>

definition error_message :: "jsval \<Rightarrow> string \<Rightarrow> error + jsval" where
  "error_message err status =
     andThen (get err ''error'') (\<lambda>e. Inr (js_or (opt_get e ''message'') (JString status)))"

definition DEFAULT_MODEL_openai :: string where
  "DEFAULT_MODEL_openai = ''gpt-4o-mini''"

definition DEFAULT_MODEL_gemini :: string where
  "DEFAULT_MODEL_gemini = ''gemini-1.5-flash''"

definition DEFAULT_MODEL_anthropic :: string where
  "DEFAULT_MODEL_anthropic = ''claude-3-5-sonnet-20241022''"

definition openai_request :: "jsval \<Rightarrow> LLMConfig \<Rightarrow> request" where
  "openai_request messages config =
     \<lparr>url = ''https://api.openai.com/v1/chat/completions'',
      http_method = ''POST'',
      headers = [(''Content-Type'', ''application/json''),
                 (''Authorization'', ''Bearer '' @ apiKey config)],
      body = JObject [(''model'', JString (model_or (model config) DEFAULT_MODEL_openai)),
                      (''messages'', messages),
                      (''temperature'', JNumber (7 / 10)),
                      (''max_tokens'', JNumber 2000)]\<rparr>"

definition sendToOpenAI :: "network \<Rightarrow> jsval \<Rightarrow> LLMConfig \<Rightarrow> (error + jsval) \<times> request list" where
  "sendToOpenAI fetch messages config =
     (let req = openai_request messages config in
      (andThen (fetch req) (\<lambda>response.
         if \<not> ok response then
           andThen (json response) (\<lambda>err.
           andThen (error_message err (statusText response)) (\<lambda>m.
             Inl (ApiError ''OpenAI API error: '' m)))
         else
           andThen (json response) (\<lambda>data.
           andThen (get data ''choices'') (\<lambda>choices.
           andThen (index0 choices) (\<lambda>choice.
           andThen (get choice ''message'') (\<lambda>message.
             get message ''content''))))),
       [req]))"

definition gemini_request :: "string \<Rightarrow> LLMConfig \<Rightarrow> request" where
  "gemini_request prompt config =
     \<lparr>url = ''https://generativelanguage.googleapis.com/v1beta/models/''
              @ model_or (model config) DEFAULT_MODEL_gemini
              @ '':generateContent?key='' @ apiKey config,
      http_method = ''POST'',
      headers = [(''Content-Type'', ''application/json'')],
      body = JObject [(''contents'', JArray [JObject [(''parts'',
                         JArray [JObject [(''text'', JString prompt)]])]]),
                      (''generationConfig'',
                         JObject [(''temperature'', JNumber (7 / 10)),
                                  (''maxOutputTokens'', JNumber 2000)])]\<rparr>"

definition sendToGemini :: "network \<Rightarrow> string \<Rightarrow> LLMConfig \<Rightarrow> (error + jsval) \<times> request list" where
  "sendToGemini fetch prompt config =
     (let req = gemini_request prompt config in
      (andThen (fetch req) (\<lambda>response.
         if \<not> ok response then
           andThen (json response) (\<lambda>err.
           andThen (error_message err (statusText response)) (\<lambda>m.
             Inl (ApiError ''Gemini API error: '' m)))
         else
           andThen (json response) (\<lambda>data.
           andThen (get data ''candidates'') (\<lambda>candidates.
             if \<not> truthy candidates \<or> js_length candidates = JNumber 0 then
               Inl (Error ''Gemini API returned no response candidates'')
             else
               andThen (index0 candidates) (\<lambda>candidate.
               andThen (get candidate ''content'') (\<lambda>content.
               andThen (get content ''parts'') (\<lambda>parts.
               andThen (index0 parts) (\<lambda>part.
                 get part ''text''))))))),
       [req]))"

definition anthropic_request :: "string \<Rightarrow> jsval \<Rightarrow> LLMConfig \<Rightarrow> request" where
  "anthropic_request systemPrompt messages config =
     \<lparr>url = ''https://api.anthropic.com/v1/messages'',
      http_method = ''POST'',
      headers = [(''Content-Type'', ''application/json''),
                 (''x-api-key'', apiKey config),
                 (''anthropic-version'', ''2023-06-01''),
                 (''anthropic-dangerous-direct-browser-access'', ''true'')],
      body = JObject [(''model'', JString (model_or (model config) DEFAULT_MODEL_anthropic)),
                      (''max_tokens'', JNumber 2000),
                      (''system'', JString systemPrompt),
                      (''messages'', messages)]\<rparr>"

definition sendToAnthropic ::
  "network \<Rightarrow> string \<Rightarrow> jsval \<Rightarrow> LLMConfig \<Rightarrow> (error + jsval) \<times> request list" where
  "sendToAnthropic fetch systemPrompt messages config =
     (let req = anthropic_request systemPrompt messages config in
      (andThen (fetch req) (\<lambda>response.
         if \<not> ok response then
           andThen (json response) (\<lambda>err.
           andThen (error_message err (statusText response)) (\<lambda>m.
             Inl (ApiError ''Anthropic API error: '' m)))
         else
           andThen (json response) (\<lambda>data.
           andThen (get data ''content'') (\<lambda>content.
           andThen (index0 content) (\<lambda>block.
             get block ''text'')))),
       [req]))"

subsection \<open>LLMService.sendMessage\<close>

text \<open>One element \<^verbatim>\<open>{ role, content }\<close> of a message array.\<close>

definition message :: "string \<Rightarrow> string \<Rightarrow> jsval" where
  "message role content = JObject [(''role'', JString role), (''content'', JString content)]"

text \<open>
  The optional parameter \<open>systemPrompt\<close> is \<open>None\<close> when the caller leaves it out;
  the tests \<^verbatim>\<open>systemPrompt ? ... : ...\<close> and \<^verbatim>\<open>systemPrompt || ...\<close> also take the
  empty string as absent.
\<close>

definition given :: "string option \<Rightarrow> bool" where
  "given s = (case s of None \<Rightarrow> False | Some t \<Rightarrow> t \<noteq> [])"

definition sendMessage ::
  "network \<Rightarrow> LLMConfig \<Rightarrow> string \<Rightarrow> string option \<Rightarrow> (error + jsval) \<times> request list" where
  "sendMessage fetch config prompt systemPrompt =
     (if provider config = ''openai'' then
        sendToOpenAI fetch
          (if given systemPrompt
           then JArray [message ''system'' (the systemPrompt), message ''user'' prompt]
           else JArray [message ''user'' prompt])
          config
      else if provider config = ''anthropic'' then
        sendToAnthropic fetch
          (if given systemPrompt then the systemPrompt else ''You are a helpful assistant.'')
          (JArray [message ''user'' prompt])
          config
      else if provider config = ''gemini'' then
        sendToGemini fetch
          (if given systemPrompt then the systemPrompt @ [CHR 10, CHR 10] @ prompt else prompt)
          config
      else (Inl (Error (''Unknown provider: '' @ provider config)), []))"

section \<open>String methods\<close>

text \<open>\<^verbatim>\<open>s.startsWith(p)\<close>, and \<^verbatim>\<open>s.endsWith(p)\<close> for the anchor \<^verbatim>\<open>$\<close> of a pattern.\<close>

fun startsWith :: "string \<Rightarrow> string \<Rightarrow> bool" where
  "startsWith s [] = True"
| "startsWith [] (p # ps) = False"
| "startsWith (c # cs) (p # ps) = (c = p \<and> startsWith cs ps)"

definition endsWith :: "string \<Rightarrow> string \<Rightarrow> bool" where
  "endsWith s p = startsWith (rev s) (rev p)"

text \<open>
  \<^verbatim>\<open>s.trim()\<close> removes white space and line terminators at both ends; among the code
  units below 256 these are TAB, LF, VT, FF, CR, SP and NBSP.
\<close>

definition white :: "char \<Rightarrow> bool" where
  "white c = (c = CHR 0x09 \<or> c = CHR 0x0A \<or> c = CHR 0x0B \<or> c = CHR 0x0C \<or> c = CHR 0x0D
              \<or> c = CHR 0x20 \<or> c = CHR 0xA0)"

definition trim :: "string \<Rightarrow> string" where
  "trim s = rev (dropWhile white (rev (dropWhile white s)))"

section \<open>JSON.parse\<close>

text \<open>
  The built-in \<^verbatim>\<open>JSON.parse\<close> (without reviver), as one pass over the text: a lexer
  state, and under it a pushdown recogniser of the JSON grammar that builds the value.
\<close>

text \<open>The code unit of a character.\<close>

definition code :: "char \<Rightarrow> nat" where
  "code c = of_char c"

text \<open>
  The string value and the object made of decoded code units: \<open>JString\<close> and
  \<open>JObject\<close> when no code unit of the string, or of any key, is above 255.
\<close>

definition narrow :: "nat list \<Rightarrow> bool" where
  "narrow us = list_all (\<lambda>u. u < 256) us"

definition js_string :: "nat list \<Rightarrow> jsval" where
  "js_string us = (if narrow us then JString (map char_of us) else JWide us)"

definition js_object :: "(nat list \<times> jsval) list \<Rightarrow> jsval" where
  "js_object ms =
     (if list_all (\<lambda>m. narrow (fst m)) ms
      then JObject (map (\<lambda>m. (map char_of (fst m), snd m)) ms)
      else JObjectW (map (\<lambda>m. (js_string (fst m), snd m)) ms))"

text \<open>The tokens of the grammar; a number token holds the number value.\<close>

datatype token =
    TLBrace | TRBrace | TLBracket | TRBracket | TColon | TComma
  | TString "nat list" | TNumber jsval | TTrue | TFalse | TNull

text \<open>
  The recogniser: a stack of the arrays and objects that are open (with the elements and
  members read so far, last first, and for an object the key whose value is awaited), and
  what may come next. \<open>feed\<close> takes one token.
\<close>

datatype frame = FArr "jsval list" | FObj "(nat list \<times> jsval) list" "nat list"

datatype pstate =
    PValue "frame list"
  | PFirstElem "frame list"
  | PAfterElem "jsval list" "frame list"
  | PFirstKey "frame list"
  | PKey "(nat list \<times> jsval) list" "frame list"
  | PColon "(nat list \<times> jsval) list" "nat list" "frame list"
  | PAfterMember "(nat list \<times> jsval) list" "frame list"
  | PDone jsval

fun complete :: "jsval \<Rightarrow> frame list \<Rightarrow> pstate" where
  "complete v [] = PDone v"
| "complete v (FArr items # stk) = PAfterElem (v # items) stk"
| "complete v (FObj ms k # stk) = PAfterMember ((k, v) # ms) stk"

fun begin_value :: "frame list \<Rightarrow> token \<Rightarrow> pstate option" where
  "begin_value stk (TString s) = Some (complete (js_string s) stk)"
| "begin_value stk (TNumber n) = Some (complete n stk)"
| "begin_value stk TTrue = Some (complete (JBool True) stk)"
| "begin_value stk TFalse = Some (complete (JBool False) stk)"
| "begin_value stk TNull = Some (complete JNull stk)"
| "begin_value stk TLBracket = Some (PFirstElem stk)"
| "begin_value stk TLBrace = Some (PFirstKey stk)"
| "begin_value stk t = None"

fun feed :: "pstate \<Rightarrow> token \<Rightarrow> pstate option" where
  "feed (PValue stk) t = begin_value stk t"
| "feed (PFirstElem stk) t =
     (if t = TRBracket then Some (complete (JArray []) stk) else begin_value (FArr [] # stk) t)"
| "feed (PAfterElem items stk) t =
     (if t = TComma then Some (PValue (FArr items # stk))
      else if t = TRBracket then Some (complete (JArray (rev items)) stk)
      else None)"
| "feed (PFirstKey stk) t =
     (case t of TString k \<Rightarrow> Some (PColon [] k stk)
      | TRBrace \<Rightarrow> Some (complete (JObject []) stk)
      | _ \<Rightarrow> None)"
| "feed (PKey ms stk) t = (case t of TString k \<Rightarrow> Some (PColon ms k stk) | _ \<Rightarrow> None)"
| "feed (PColon ms k stk) t = (if t = TColon then Some (PValue (FObj ms k # stk)) else None)"
| "feed (PAfterMember ms stk) t =
     (if t = TComma then Some (PKey ms stk)
      else if t = TRBrace then Some (complete (js_object (rev ms)) stk)
      else None)"
| "feed (PDone v) t = None"

text \<open>
  The number value of a decimal: the IEEE 754 double nearest to
  \<open>num / den\<close>, ties to the even significand, with the sign \<open>neg\<close>.
  \<open>binary_exponent\<close> is the \<open>e\<close> with \<open>2 ^ e \<le> num / den < 2 ^ (e + 1)\<close>; the doubles
  around the value are the multiples of \<open>2 ^ p\<close>, where \<open>p\<close> is \<open>e - 52\<close> and for the
  subnormal numbers \<open>- 1074\<close>; a result of \<open>2 ^ 1024\<close> or more is an infinity.
\<close>

function bit_length :: "int \<Rightarrow> nat" where
  "bit_length n = (if n \<le> 0 then 0 else Suc (bit_length (n div 2)))"
  by pat_completeness auto
termination
  by (relation "measure nat") auto

definition at_least_pow2 :: "int \<Rightarrow> int \<Rightarrow> int \<Rightarrow> bool" where
  "at_least_pow2 num den k =
     (if 0 \<le> k then den * 2 ^ nat k \<le> num else den \<le> num * 2 ^ nat (- k))"

definition binary_exponent :: "int \<Rightarrow> int \<Rightarrow> int" where
  "binary_exponent num den =
     (let k = int (bit_length num) - int (bit_length den)
      in if at_least_pow2 num den k then k else k - 1)"

definition signed :: "bool \<Rightarrow> rat \<Rightarrow> rat" where
  "signed neg r = (if neg then - r else r)"

definition to_double :: "bool \<Rightarrow> int \<Rightarrow> int \<Rightarrow> jsval" where
  "to_double neg num den =
     (if num = 0 then JNumber 0
      else
        (let p = max (binary_exponent num den) (- 1022) - 52;
             a = (if 0 \<le> p then num else num * 2 ^ nat (- p));
             b = (if 0 \<le> p then den * 2 ^ nat p else den);
             n = a div b;
             r = a mod b;
             m = (if b < 2 * r \<or> (2 * r = b \<and> n mod 2 = 1) then n + 1 else n)
         in if 0 \<le> p then
              (if 2 ^ 1024 \<le> m * 2 ^ nat p then (if neg then JNegInfinity else JInfinity)
               else JNumber (signed neg (of_int (m * 2 ^ nat p))))
            else JNumber (signed neg (of_int m / 2 ^ nat (- p)))))"

text \<open>\<open>n\<close> times ten to the power \<open>e\<close>, for a natural number \<open>n\<close>.\<close>

definition decimal :: "bool \<Rightarrow> int \<Rightarrow> int \<Rightarrow> jsval" where
  "decimal neg n e =
     (if 0 \<le> e then to_double neg (n * 10 ^ nat e) 1 else to_double neg n (10 ^ nat (- e)))"

text \<open>
  A number literal: \<^verbatim>\<open>-? (0 | [1-9][0-9]*) (. [0-9]+)? ([eE] [+-]? [0-9]+)?\<close>.
\<close>

definition digit :: "char \<Rightarrow> bool" where
  "digit c = (48 \<le> code c \<and> code c \<le> 57)"

definition digit_value :: "char \<Rightarrow> int" where
  "digit_value c = int (code c) - 48"

definition digits_value :: "string \<Rightarrow> int" where
  "digits_value ds = foldl (\<lambda>n c. 10 * n + digit_value c) 0 ds"

definition exponent_part :: "string \<Rightarrow> (bool \<times> int) option" where
  "exponent_part s =
     (case s of
        [] \<Rightarrow> Some (False, 0)
      | c # r \<Rightarrow>
          if c = CHR ''e'' \<or> c = CHR ''E'' then
            (let neg = startsWith r ''-'';
                 ds = (if startsWith r ''-'' \<or> startsWith r ''+'' then tl r else r)
             in if ds \<noteq> [] \<and> list_all digit ds then Some (neg, digits_value ds) else None)
          else None)"

definition fraction_part :: "string \<Rightarrow> (string \<times> string) option" where
  "fraction_part s =
     (if startsWith s ''.'' then
        (let ds = takeWhile digit (tl s) in
         if ds = [] then None else Some (ds, dropWhile digit (tl s)))
      else Some ([], s))"

definition number_value :: "string \<Rightarrow> jsval option" where
  "number_value s =
     (let neg = startsWith s ''-'';
          u = (if neg then tl s else s);
          ds = takeWhile digit u
      in if ds = [] \<or> (length ds > 1 \<and> hd ds = CHR ''0'') then None
         else (case fraction_part (dropWhile digit u) of
                 None \<Rightarrow> None
               | Some (fs, r) \<Rightarrow>
                   (case exponent_part r of
                      None \<Rightarrow> None
                    | Some (eneg, e) \<Rightarrow>
                        Some (decimal neg (digits_value (ds @ fs))
                                ((if eneg then - e else e) - int (length fs))))))"

text \<open>
  The lexer: between tokens, inside a string (after a backslash, inside the four
  hexadecimal digits of \<^verbatim>\<open>\uXXXX\<close>), inside a number or inside a word; what was read
  so far is kept last first, for a string as code units. A number and a word end at the
  first character that cannot continue them, which then starts the next token.
\<close>

datatype lstate =
    LStart
  | LString "nat list"
  | LEscape "nat list"
  | LUnicode "nat list" string
  | LNumber string
  | LWord string

definition number_char :: "char \<Rightarrow> bool" where
  "number_char c = (digit c \<or> c = CHR ''-'' \<or> c = CHR ''+'' \<or> c = CHR ''.'' \<or> c = CHR ''e'' \<or> c = CHR ''E'')"

definition lower :: "char \<Rightarrow> bool" where
  "lower c = (97 \<le> code c \<and> code c \<le> 122)"

definition json_ws :: "char \<Rightarrow> bool" where
  "json_ws c = (c = CHR 0x20 \<or> c = CHR 0x09 \<or> c = CHR 0x0A \<or> c = CHR 0x0D)"

definition punct :: "char \<Rightarrow> token option" where
  "punct c =
     (if c = CHR ''{'' then Some TLBrace else if c = CHR ''}'' then Some TRBrace
      else if c = CHR ''['' then Some TLBracket else if c = CHR '']'' then Some TRBracket
      else if c = CHR '':'' then Some TColon else if c = CHR '','' then Some TComma
      else None)"

definition start_step :: "pstate \<Rightarrow> char \<Rightarrow> (lstate \<times> pstate) option" where
  "start_step p c =
     (if json_ws c then Some (LStart, p)
      else if c = CHR 0x22 then Some (LString [], p)
      else if digit c \<or> c = CHR ''-'' then Some (LNumber [c], p)
      else if lower c then Some (LWord [c], p)
      else (case punct c of
              None \<Rightarrow> None
            | Some t \<Rightarrow> map_option (Pair LStart) (feed p t)))"

definition flush_number :: "pstate \<Rightarrow> string \<Rightarrow> pstate option" where
  "flush_number p acc =
     (case number_value (rev acc) of None \<Rightarrow> None | Some n \<Rightarrow> feed p (TNumber n))"

definition flush_word :: "pstate \<Rightarrow> string \<Rightarrow> pstate option" where
  "flush_word p acc =
     (if rev acc = ''true'' then feed p TTrue
      else if rev acc = ''false'' then feed p TFalse
      else if rev acc = ''null'' then feed p TNull
      else None)"

text \<open>The code unit that a character after a backslash stands for.\<close>

definition escape :: "char \<Rightarrow> nat option" where
  "escape c =
     (if c = CHR 0x22 \<or> c = CHR 0x5C \<or> c = CHR ''/'' then Some (code c)
      else if c = CHR ''b'' then Some 8
      else if c = CHR ''f'' then Some 12
      else if c = CHR ''n'' then Some 10
      else if c = CHR ''r'' then Some 13
      else if c = CHR ''t'' then Some 9
      else None)"

definition hex_value :: "char \<Rightarrow> nat option" where
  "hex_value c =
     (if digit c then Some (code c - 48)
      else if 97 \<le> code c \<and> code c \<le> 102 then Some (code c - 87)
      else if 65 \<le> code c \<and> code c \<le> 70 then Some (code c - 55)
      else None)"

fun step :: "lstate \<Rightarrow> pstate \<Rightarrow> char \<Rightarrow> (lstate \<times> pstate) option" where
  "step LStart p c = start_step p c"
| "step (LNumber acc) p c =
     (if number_char c then Some (LNumber (c # acc), p)
      else (case flush_number p acc of None \<Rightarrow> None | Some q \<Rightarrow> start_step q c))"
| "step (LWord acc) p c =
     (if lower c then Some (LWord (c # acc), p)
      else (case flush_word p acc of None \<Rightarrow> None | Some q \<Rightarrow> start_step q c))"
| "step (LString acc) p c =
     (if c = CHR 0x22 then map_option (Pair LStart) (feed p (TString (rev acc)))
      else if c = CHR 0x5C then Some (LEscape acc, p)
      else if code c < 32 then None
      else Some (LString (code c # acc), p))"
| "step (LEscape acc) p c =
     (if c = CHR ''u'' then Some (LUnicode acc [], p)
      else (case escape c of None \<Rightarrow> None | Some u \<Rightarrow> Some (LString (u # acc), p)))"
| "step (LUnicode acc hex) p c =
     (case hex_value c of
        None \<Rightarrow> None
      | Some h \<Rightarrow>
          if length hex < 3 then Some (LUnicode acc (c # hex), p)
          else Some (LString (foldl (\<lambda>n d. 16 * n + the (hex_value d)) 0 (rev (c # hex)) # acc), p))"

text \<open>The whole text, and what the end of the text makes of the last state.\<close>

fun run :: "lstate \<Rightarrow> pstate \<Rightarrow> string \<Rightarrow> (lstate \<times> pstate) option" where
  "run l p [] = Some (l, p)"
| "run l p (c # cs) = (case step l p c of None \<Rightarrow> None | Some (l', p') \<Rightarrow> run l' p' cs)"

fun finish :: "lstate \<Rightarrow> pstate \<Rightarrow> pstate option" where
  "finish LStart p = Some p"
| "finish (LNumber acc) p = flush_number p acc"
| "finish (LWord acc) p = flush_word p acc"
| "finish l p = None"

definition JSON_parse :: "string \<Rightarrow> error + jsval" where
  "JSON_parse text =
     (case run LStart (PValue []) text of
        None \<Rightarrow> Inl SyntaxError
      | Some (l, p) \<Rightarrow>
          (case finish l p of Some (PDone v) \<Rightarrow> Inr v | _ \<Rightarrow> Inl SyntaxError))"

section \<open>parseJSON (services/contentGenerator)\<close>

text \<open>
  \<^verbatim>\<open>cleaned.replace(/^```(?:json)?\n?/, '')\<close>: the three backquotes, then the word
  json if it is there, then one line feed if it is there.
\<close>

definition replace_open :: "string \<Rightarrow> string" where
  "replace_open s =
     (if startsWith s ''```'' then
        (let r = drop 3 s;
             r = (if startsWith r ''json'' then drop 4 r else r)
         in if startsWith r [CHR 0x0A] then drop 1 r else r)
      else s)"

text \<open>
  \<^verbatim>\<open>.replace(/\n?```$/, '')\<close>: three backquotes at the very end of the text, with the
  line feed before them if there is one.
\<close>

definition replace_close :: "string \<Rightarrow> string" where
  "replace_close s =
     (if endsWith s (CHR 0x0A # ''```'') then take (length s - 4) s
      else if endsWith s ''```'' then take (length s - 3) s
      else s)"

text \<open>The local variable \<open>cleaned\<close> of parseJSON, as it stands before the decoding.\<close>

definition cleaned :: "string \<Rightarrow> string" where
  "cleaned response =
     (let c = trim response
      in if startsWith c ''```'' then replace_close (replace_open c) else c)"

definition parseJSON :: "string \<Rightarrow> error + jsval" where
  "parseJSON response = JSON_parse (cleaned response)"


section \<open>Image resolution and the generation flows (services/contentGenerator)\<close>

text \<open>
  Modelled from the spec: the module \<^verbatim>\<open>./unsplash\<close> with \<open>getCachedPhotoUrl\<close> and
  \<open>getFallbackImage\<close> is not among the source files. Following section 4.5 of the
  specification, the lookup is any function that either fails or yields a URL, and the
  fallback is a function of the keywords alone that always yields a URL.
\<close>

record unsplash =
  getCachedPhotoUrl :: "jsval \<Rightarrow> error + string"
  getFallbackImage :: "jsval \<Rightarrow> string"

definition getImageForKeywords :: "unsplash \<Rightarrow> jsval \<Rightarrow> error + string" where
  "getImageForKeywords u keywords =
     (case getCachedPhotoUrl u keywords of
        Inr photo \<Rightarrow> Inr photo
      | Inl e \<Rightarrow> Inr (getFallbackImage u keywords))"

text \<open>
  The interface \<open>Story\<close> as a caller hands it in (an argument is taken at its declared
  type), and the objects the flows build from a provider's reply, whose fields copied
  from the decoded JSON hold whatever value was there. A property an object literal does
  not set reads \<^verbatim>\<open>undefined\<close>.
\<close>

record Story =
  story_id :: int
  title :: string
  description :: string
  image :: string
  imageKeywords :: "string option"
  relatedUrls :: "string list option"
  createdAt :: "nat option"

record GeneratedStory =
  gs_id :: jsval
  gs_title :: jsval
  gs_description :: jsval
  gs_image :: string
  gs_imageKeywords :: jsval
  gs_relatedUrls :: jsval
  gs_createdAt :: nat

record GeneratedChunk =
  gc_id :: jsval
  gc_title :: jsval
  gc_content :: jsval
  gc_image :: string
  gc_imageKeywords :: jsval

text \<open>
  \<^verbatim>\<open>Promise.all\<close> over the results of the callbacks, and likewise \<^verbatim>\<open>Array.map\<close> with a
  callback that may throw: the list of all values, or the first failure.
\<close>

fun Promise_all :: "(error + 'a) list \<Rightarrow> error + 'a list" where
  "Promise_all [] = Inr []"
| "Promise_all (r # rs) =
     (case r of
        Inl e \<Rightarrow> Inl e
      | Inr v \<Rightarrow> (case Promise_all rs of Inl e \<Rightarrow> Inl e | Inr vs \<Rightarrow> Inr (v # vs)))"

text \<open>\<^verbatim>\<open>parsed.map(callback)\<close>: a TypeError unless \<open>parsed\<close> is an array.\<close>

definition map_array :: "(nat \<times> jsval \<Rightarrow> error + 'a) \<Rightarrow> jsval \<Rightarrow> error + 'a list" where
  "map_array callback parsed =
     (case parsed of
        JArray items \<Rightarrow> Promise_all (map callback (enumerate 0 items))
      | _ \<Rightarrow> Inl TypeError)"

subsection \<open>The variant without a configuration parameter\<close>

text \<open>
  The callback of generateStoriesFromHistory. \<open>now\<close> is the clock that
  \<^verbatim>\<open>new Date()\<close> reads.
\<close>

definition story_callback :: "unsplash \<Rightarrow> nat \<Rightarrow> jsval \<Rightarrow> error + GeneratedStory" where
  "story_callback u now item =
     andThen (get item ''imageKeywords'') (\<lambda>ik.
     andThen (get item ''image'') (\<lambda>im.
     andThen (get item ''title'') (\<lambda>t.
     let keywords = js_or (js_or ik im) t in
     andThen (getImageForKeywords u keywords) (\<lambda>imageUrl.
     andThen (get item ''id'') (\<lambda>i.
     andThen (get item ''description'') (\<lambda>d.
     andThen (get item ''relatedUrls'') (\<lambda>r.
       Inr \<lparr>gs_id = i, gs_title = t, gs_description = d, gs_image = imageUrl,
            gs_imageKeywords = keywords, gs_relatedUrls = js_or r (JArray []),
            gs_createdAt = now\<rparr>)))))))"

text \<open>
  \<open>generateStories\<close> stands for \<^verbatim>\<open>llm.generateStories\<close>: what the provider answers
  to the request for these URLs, or the failure of the call.
\<close>

definition generateStoriesFromHistory ::
  "unsplash \<Rightarrow> (nat \<Rightarrow> nat) \<Rightarrow> (string list \<Rightarrow> error + string) \<Rightarrow> string list
     \<Rightarrow> error + GeneratedStory list" where
  "generateStoriesFromHistory u now generateStories urls =
     andThen (generateStories urls) (\<lambda>response.
     andThen (parseJSON response) (\<lambda>parsed.
       map_array (\<lambda>(n, item). story_callback u (now n) item) parsed))"

text \<open>
  The same three functions with the two imports of getImageForKeywords as parameters,
  each of which may fail: the code as it stands, whatever the module \<^verbatim>\<open>./unsplash\<close>
  does. A failure of the lookup is caught; a failure of the fallback is not.
\<close>

definition getImageForKeywords_with ::
  "(jsval \<Rightarrow> error + string) \<Rightarrow> (jsval \<Rightarrow> error + string) \<Rightarrow> jsval \<Rightarrow> error + string" where
  "getImageForKeywords_with lookup fallback keywords =
     (case lookup keywords of
        Inr photo \<Rightarrow> Inr photo
      | Inl e \<Rightarrow> fallback keywords)"

definition story_callback_with ::
  "(jsval \<Rightarrow> error + string) \<Rightarrow> (jsval \<Rightarrow> error + string) \<Rightarrow> nat \<Rightarrow> jsval
     \<Rightarrow> error + GeneratedStory" where
  "story_callback_with lookup fallback now item =
     andThen (get item ''imageKeywords'') (\<lambda>ik.
     andThen (get item ''image'') (\<lambda>im.
     andThen (get item ''title'') (\<lambda>t.
     let keywords = js_or (js_or ik im) t in
     andThen (getImageForKeywords_with lookup fallback keywords) (\<lambda>imageUrl.
     andThen (get item ''id'') (\<lambda>i.
     andThen (get item ''description'') (\<lambda>d.
     andThen (get item ''relatedUrls'') (\<lambda>r.
       Inr \<lparr>gs_id = i, gs_title = t, gs_description = d, gs_image = imageUrl,
            gs_imageKeywords = keywords, gs_relatedUrls = js_or r (JArray []),
            gs_createdAt = now\<rparr>)))))))"

definition generateStoriesFromHistory_with ::
  "(jsval \<Rightarrow> error + string) \<Rightarrow> (jsval \<Rightarrow> error + string) \<Rightarrow> (nat \<Rightarrow> nat)
     \<Rightarrow> (string list \<Rightarrow> error + string) \<Rightarrow> string list \<Rightarrow> error + GeneratedStory list" where
  "generateStoriesFromHistory_with lookup fallback now generateStories urls =
     andThen (generateStories urls) (\<lambda>response.
     andThen (parseJSON response) (\<lambda>parsed.
       map_array (\<lambda>(n, item). story_callback_with lookup fallback (now n) item) parsed))"


text \<open>\<^verbatim>\<open>story.imageKeywords\<close> of an argument, as a value.\<close>

definition optional :: "string option \<Rightarrow> jsval" where
  "optional s = (case s of None \<Rightarrow> JUndefined | Some k \<Rightarrow> JString k)"

definition chunk_callback :: "unsplash \<Rightarrow> Story \<Rightarrow> jsval \<Rightarrow> error + GeneratedChunk" where
  "chunk_callback u story item =
     andThen (get item ''imageKeywords'') (\<lambda>ik.
     andThen (get item ''image'') (\<lambda>im.
     let keywords = js_or (js_or (js_or ik im) (optional (imageKeywords story)))
                      (JString (title story)) in
     andThen (getImageForKeywords u keywords) (\<lambda>imageUrl.
     andThen (get item ''id'') (\<lambda>i.
     andThen (get item ''title'') (\<lambda>t.
     andThen (get item ''content'') (\<lambda>c.
       Inr \<lparr>gc_id = i, gc_title = t, gc_content = c, gc_image = imageUrl,
            gc_imageKeywords = keywords\<rparr>))))))"

text \<open>
  \<open>generateChunks\<close> stands for \<^verbatim>\<open>llm.generateChunks\<close>, called with the story's title,
  description, related URLs (\<^verbatim>\<open>story.relatedUrls || []\<close>) and image keywords.
\<close>

definition generateChunksFromStory ::
  "unsplash \<Rightarrow> (string \<Rightarrow> string \<Rightarrow> string list \<Rightarrow> string option \<Rightarrow> error + string) \<Rightarrow> Story
     \<Rightarrow> error + GeneratedChunk list" where
  "generateChunksFromStory u generateChunks story =
     andThen (generateChunks (title story) (description story)
                (case relatedUrls story of None \<Rightarrow> [] | Some us \<Rightarrow> us)
                (imageKeywords story)) (\<lambda>response.
     andThen (parseJSON response) (\<lambda>parsed.
       map_array (\<lambda>(n, item). chunk_callback u story item) parsed))"

subsection \<open>The variant with a configuration parameter\<close>

text \<open>
  Here \<open>generateChunks\<close> stands for \<^verbatim>\<open>new LLMService(config).generateChunks\<close>; the
  chunks get the story's image and no image keywords.
\<close>

definition config_chunk_callback :: "Story \<Rightarrow> jsval \<Rightarrow> error + GeneratedChunk" where
  "config_chunk_callback story item =
     andThen (get item ''id'') (\<lambda>i.
     andThen (get item ''title'') (\<lambda>t.
     andThen (get item ''content'') (\<lambda>c.
       Inr \<lparr>gc_id = i, gc_title = t, gc_content = c, gc_image = image story,
            gc_imageKeywords = JUndefined\<rparr>)))"

definition config_generateChunksFromStory ::
  "(LLMConfig \<Rightarrow> string \<Rightarrow> string \<Rightarrow> string list \<Rightarrow> error + string) \<Rightarrow> Story \<Rightarrow> LLMConfig
     \<Rightarrow> error + GeneratedChunk list" where
  "config_generateChunksFromStory generateChunks story config =
     andThen (generateChunks config (title story) (description story)
                (case relatedUrls story of None \<Rightarrow> [] | Some us \<Rightarrow> us)) (\<lambda>response.
     andThen (parseJSON response) (\<lambda>parsed.
       map_array (\<lambda>(n, item). config_chunk_callback story item) parsed))"

section \<open>The chat page (components/pages/ChatbotPage)\<close>

text \<open>
  \<^verbatim>\<open>s.toLowerCase()\<close> on the code units below 256: the letters A-Z and the capital
  letters of Latin-1 (C0-DE but D7) move by 32. \<^verbatim>\<open>s.includes(p)\<close>: \<open>p\<close> occurs in \<open>s\<close>.
\<close>

definition lower_char :: "char \<Rightarrow> char" where
  "lower_char c =
     (if (65 \<le> code c \<and> code c \<le> 90) \<or> (192 \<le> code c \<and> code c \<le> 222 \<and> code c \<noteq> 215)
      then char_of (code c + 32) else c)"

definition toLowerCase :: "string \<Rightarrow> string" where
  "toLowerCase s = map lower_char s"

fun string_includes :: "string \<Rightarrow> string \<Rightarrow> bool" where
  "string_includes [] p = (p = [])"
| "string_includes (c # cs) p = (startsWith (c # cs) p \<or> string_includes cs p)"

definition generateFallbackResponse :: "string \<Rightarrow> string \<Rightarrow> string" where
  "generateFallbackResponse userMessage storyTitle =
     (let lowerMessage = toLowerCase userMessage in
      if string_includes lowerMessage ''summary'' \<or> string_includes lowerMessage ''summarize'' then
        ''Great question! The key takeaway from '' @ [CHR 0x22] @ storyTitle @ [CHR 0x22]
        @ '' is understanding how different perspectives shape our view of this topic. The chunks you read covered various aspects from historical context to future trends.''
      else if string_includes lowerMessage ''why'' \<or> string_includes lowerMessage ''reason'' then
        ''That's an insightful question! This topic is important because it impacts how we think about and approach related concepts. Each chunk revealed different layers of understanding.''
      else if string_includes lowerMessage ''how'' \<or> string_includes lowerMessage ''what'' then
        ''Excellent question! Based on the chunks you've read, there are multiple approaches to this. The real-world applications we covered show practical ways this manifests in everyday life.''
      else if string_includes lowerMessage ''example'' then
        ''From what you've learned, you can apply these insights in various scenarios. The expert perspectives shared some compelling examples of implementation.''
      else
        ''That's a thought-provoking question about '' @ [CHR 0x22] @ storyTitle @ [CHR 0x22]
        @ ''. Based on the chunks you've read, this connects to the broader themes of understanding context, expert insights, and real-world applications. What specific aspect interests you most?'')"

datatype sender = User | Bot

record Message =
  msg_id :: nat
  msg_text :: string
  sender :: sender
  timestamp :: nat

record Chunk =
  chunk_id :: int
  chunk_title :: string
  content :: string
  chunk_image :: string

text \<open>The state of the page that handleSend reads and sets.\<close>

record page =
  messages :: "Message list"
  input :: string
  isTyping :: bool
  story :: "Story option"
  chunks :: "Chunk list"

text \<open>
  \<open>generateChatResponse\<close> stands for the function of that name in contentGenerator, with
  the requests it issues; \<open>getApiConfig\<close> is what \<^verbatim>\<open>storageService.getApiConfig()\<close>
  returns (\<open>None\<close> for \<^verbatim>\<open>null\<close>); \<open>t1\<close> and \<open>t2\<close> are the two readings of the clock.
  The result is the state after the handler has run to its end, and the requests issued.
\<close>

type_synonym chat =
  "string \<Rightarrow> string \<Rightarrow> string \<Rightarrow> Chunk list \<Rightarrow> (string \<times> sender) list \<Rightarrow> LLMConfig
     \<Rightarrow> (error + string) \<times> request list"

definition handleSend :: "chat \<Rightarrow> LLMConfig option \<Rightarrow> nat \<Rightarrow> nat \<Rightarrow> page \<Rightarrow> page \<times> request list" where
  "handleSend generateChatResponse getApiConfig t1 t2 st =
     (case story st of
        None \<Rightarrow> (st, [])
      | Some s \<Rightarrow>
          if trim (input st) = [] \<or> isTyping st then (st, [])
          else
            (let userMessage = \<lparr>msg_id = length (messages st) + 1, msg_text = input st,
                                 sender = User, timestamp = t1\<rparr>;
                 (outcome, requests) =
                   (case getApiConfig of
                      Some config \<Rightarrow>
                        generateChatResponse (input st) (title s) (description s) (chunks st)
                          (map (\<lambda>m. (msg_text m, sender m)) (messages st)) config
                    | None \<Rightarrow> (Inr (generateFallbackResponse (input st) (title s)), []));
                 botResponse =
                   (case outcome of
                      Inr responseText \<Rightarrow>
                        \<lparr>msg_id = length (messages st) + 2, msg_text = responseText,
                         sender = Bot, timestamp = t2\<rparr>
                    | Inl e \<Rightarrow>
                        \<lparr>msg_id = length (messages st) + 2,
                         msg_text = ''Sorry, I had trouble generating a response. Please try again.'',
                         sender = Bot, timestamp = t2\<rparr>)
             in (st\<lparr>messages := messages st @ [userMessage, botResponse],
                    input := [], isTyping := False\<rparr>, requests)))"

section \<open>Test doubles\<close>

text \<open>
  An image service whose every lookup fails, one whose every lookup succeeds, a chat
  function that is never reached, and a story.
\<close>

definition failing_unsplash :: unsplash where
  "failing_unsplash =
     \<lparr>getCachedPhotoUrl = (\<lambda>k. Inl (Error ''rate limit'')),
      getFallbackImage = (\<lambda>k. ''https://fallback.example/'' @ (case k of JString s \<Rightarrow> s | _ \<Rightarrow> []))\<rparr>"

definition working_unsplash :: unsplash where
  "working_unsplash =
     \<lparr>getCachedPhotoUrl = (\<lambda>k. Inr ''https://images.example/photo''),
      getFallbackImage = (\<lambda>k. ''https://fallback.example/'' @ (case k of JString s \<Rightarrow> s | _ \<Rightarrow> []))\<rparr>"




definition unreachable_chat :: chat where
  "unreachable_chat m t d cs ms config = (Inl (Error ''unreachable''), [])"

definition ai_story :: Story where
  "ai_story =
     \<lparr>story_id = 1, title = ''AI Revolution'',
      description = ''The latest developments in artificial intelligence and machine learning'',
      image = ''https://images.unsplash.com/photo-1677442136019-21780ecad995?w=800'',
      imageKeywords = Some ''robot'', relatedUrls = Some [''https://openai.com''],
      createdAt = None\<rparr>"



definition rounded_ids_reply :: string where
  \<open>rounded_ids_reply = ''[{"id":9007199254740992,"title":"A"},{"id":9007199254740993,"title":"B"}]''\<close>


definition short_reply :: string where
  \<open>short_reply = ''[{"id":1,"title":"Core Concept","content":"c1"},{"id":2,"title":"Historical Context","content":"c2"}]''\<close>

definition long_reply :: string where
  \<open>long_reply = ''[{"id":1,"title":"a","content":"t"},{"id":2,"title":"b","content":"u"},{"id":3,"title":"c","content":"v"},{"id":4,"title":"d","content":"w"},{"id":5,"title":"e","content":"x"},{"id":6,"title":"f","content":"y"}]''\<close>

definition duplicate_reply :: string where
  \<open>duplicate_reply = ''[{"id":1,"title":"A","description":"a"},{"id":1,"title":"B","description":"b"},{"title":"C","description":"c"}]''\<close>

definition duplicate_chunks_reply :: string where
  \<open>duplicate_chunks_reply = ''[{"id":2,"title":"A","content":"a"},{"id":2,"title":"B","content":"b"}]''\<close>


definition openai_config :: LLMConfig where
  "openai_config = \<lparr>provider = ''openai'', apiKey = ''k'', model = None\<rparr>"

text \<open>The page with a story loaded and the question typed in.\<close>

definition why_page :: page where
  "why_page = \<lparr>messages = [], input = ''why does this matter'', isTyping = False,
                story = Some ai_story, chunks = []\<rparr>"

text \<open>A network on which every request fails.\<close>

definition offline :: network where
  "offline req = Inl (Error ''Failed to fetch'')"


section \<open>Facts about JSON.parse and the cleaning of a response\<close>
























section \<open>Facts about the callbacks and their collection\<close>

lemma get_readable: "readable item \<Longrightarrow> get item k = Inr (opt_get item k)"
  by (cases item) (simp_all add: readable_def opt_get_def)

lemma get_unreadable: "\<not> readable item \<Longrightarrow> get item k = Inl TypeError"
  by (cases item) (simp_all add: readable_def)

lemma Promise_all_map_Inr:
  "(\<And>x. x \<in> set xs \<Longrightarrow> f x = Inr (g x)) \<Longrightarrow> Promise_all (map f xs) = Inr (map g xs)"
  by (induction xs) simp_all

lemma Promise_all_Inr: "Promise_all rs = Inr vs \<Longrightarrow> rs = map Inr vs"
  by (induction rs arbitrary: vs) (auto split: sum.splits)

lemma getImageForKeywords_total:
  "getImageForKeywords u k =
     Inr (case getCachedPhotoUrl u k of Inr photo \<Rightarrow> photo | Inl e \<Rightarrow> getFallbackImage u k)"
  by (simp add: getImageForKeywords_def split: sum.splits)

lemma story_callback_readable:
  assumes "readable item"
  shows "story_callback u now item =
     Inr \<lparr>gs_id = opt_get item ''id'', gs_title = opt_get item ''title'',
          gs_description = opt_get item ''description'',
          gs_image = (case getCachedPhotoUrl u (js_or (js_or (opt_get item ''imageKeywords'')
                          (opt_get item ''image'')) (opt_get item ''title'')) of
                        Inr photo \<Rightarrow> photo
                      | Inl e \<Rightarrow> getFallbackImage u (js_or (js_or (opt_get item ''imageKeywords'')
                          (opt_get item ''image'')) (opt_get item ''title''))),
          gs_imageKeywords = js_or (js_or (opt_get item ''imageKeywords'')
                          (opt_get item ''image'')) (opt_get item ''title''),
          gs_relatedUrls = js_or (opt_get item ''relatedUrls'') (JArray []),
          gs_createdAt = now\<rparr>"
  by (simp add: story_callback_def get_readable[OF assms] andThen_def
        getImageForKeywords_total Let_def)

lemma story_callback_unreadable:
  "\<not> readable item \<Longrightarrow> story_callback u now item = Inl TypeError"
  by (simp add: story_callback_def get_unreadable andThen_def)

lemma chunk_callback_readable:
  assumes "readable item"
  shows "chunk_callback u s item =
     Inr \<lparr>gc_id = opt_get item ''id'', gc_title = opt_get item ''title'',
          gc_content = opt_get item ''content'',
          gc_image = (case getCachedPhotoUrl u (js_or (js_or (js_or (opt_get item ''imageKeywords'')
                          (opt_get item ''image'')) (optional (imageKeywords s)))
                          (JString (title s))) of
                        Inr photo \<Rightarrow> photo
                      | Inl e \<Rightarrow> getFallbackImage u (js_or (js_or (js_or (opt_get item ''imageKeywords'')
                          (opt_get item ''image'')) (optional (imageKeywords s)))
                          (JString (title s)))),
          gc_imageKeywords = js_or (js_or (js_or (opt_get item ''imageKeywords'')
                          (opt_get item ''image'')) (optional (imageKeywords s)))
                          (JString (title s))\<rparr>"
  by (simp add: chunk_callback_def get_readable[OF assms] andThen_def
        getImageForKeywords_total Let_def)

lemma chunk_callback_unreadable:
  "\<not> readable item \<Longrightarrow> chunk_callback u s item = Inl TypeError"
  by (simp add: chunk_callback_def get_unreadable andThen_def)

lemma config_chunk_callback_readable:
  assumes "readable item"
  shows "config_chunk_callback s item =
     Inr \<lparr>gc_id = opt_get item ''id'', gc_title = opt_get item ''title'',
          gc_content = opt_get item ''content'', gc_image = image s,
          gc_imageKeywords = JUndefined\<rparr>"
  by (simp add: config_chunk_callback_def get_readable[OF assms] andThen_def)

lemma config_chunk_callback_unreadable:
  "\<not> readable item \<Longrightarrow> config_chunk_callback s item = Inl TypeError"
  by (simp add: config_chunk_callback_def get_unreadable andThen_def)

lemma map_array_Inr:
  assumes "map_array cb (JArray items) = Inr vs"
  shows "length vs = length items \<and> (\<forall>n<length items. cb (n, items ! n) = Inr (vs ! n))"
proof -
  from assms have eq: "map cb (enumerate 0 items) = map Inr vs"
    by (simp add: map_array_def Promise_all_Inr)
  then have len: "length vs = length items"
    by (metis length_enumerate length_map)
  have "cb (n, items ! n) = Inr (vs ! n)" if "n < length items" for n
  proof -
    have "map cb (enumerate 0 items) ! n = cb (n, items ! n)"
      using that by (simp add: nth_enumerate_eq)
    moreover have "map Inr vs ! n = Inr (vs ! n)"
      using that len by simp
    ultimately show ?thesis using eq by metis
  qed
  with len show ?thesis by blast
qed

lemma map_array_succeeds:
  assumes "\<And>n. n < length items \<Longrightarrow> \<exists>v. cb (n, items ! n) = Inr v"
  shows "\<exists>vs. map_array cb (JArray items) = Inr vs"
proof -
  have "cb x = Inr (projr (cb x))" if "x \<in> set (enumerate 0 items)" for x
  proof -
    from that have "fst x < length items" and "items ! fst x = snd x"
      by (simp_all add: in_set_enumerate_eq)
    with assms[of "fst x"] obtain v where "cb x = Inr v"
      by (metis prod.collapse)
    then show ?thesis by simp
  qed
  then have "Promise_all (map cb (enumerate 0 items)) = Inr (map (\<lambda>x. projr (cb x)) (enumerate 0 items))"
    by (rule Promise_all_map_Inr)
  then show ?thesis by (simp add: map_array_def)
qed

lemma readable_nth: "list_all readable items \<Longrightarrow> n < length items \<Longrightarrow> readable (items ! n)"
  by (simp add: list_all_length)

lemma stories_flow:
  assumes "generateStories urls = Inr response" and "parseJSON response = Inr (JArray items)"
    and "list_all readable items"
  shows "\<exists>stories. generateStoriesFromHistory u now generateStories urls = Inr stories
           \<and> length stories = length items
           \<and> (\<forall>n<length items. story_callback u (now n) (items ! n) = Inr (stories ! n))"
proof -
  let ?cb = "\<lambda>(n, item). story_callback u (now n) item"
  have flow: "generateStoriesFromHistory u now generateStories urls = map_array ?cb (JArray items)"
    using assms(1,2) by (simp add: generateStoriesFromHistory_def andThen_def)
  have "\<exists>v. ?cb (n, items ! n) = Inr v" if "n < length items" for n
    using readable_nth[OF assms(3) that] by (simp add: story_callback_readable)
  then obtain stories where ok: "map_array ?cb (JArray items) = Inr stories"
    using map_array_succeeds[of items ?cb] by blast
  from map_array_Inr[OF ok] flow ok show ?thesis by auto
qed

lemma chunks_flow:
  assumes "generateChunks (title s) (description s)
             (case relatedUrls s of None \<Rightarrow> [] | Some us \<Rightarrow> us) (imageKeywords s) = Inr response"
    and "parseJSON response = Inr (JArray items)" and "list_all readable items"
  shows "\<exists>cs. generateChunksFromStory u generateChunks s = Inr cs
           \<and> length cs = length items
           \<and> (\<forall>n<length items. chunk_callback u s (items ! n) = Inr (cs ! n))"
proof -
  let ?cb = "\<lambda>(n, item). chunk_callback u s item"
  have flow: "generateChunksFromStory u generateChunks s = map_array ?cb (JArray items)"
    using assms(1,2) by (simp add: generateChunksFromStory_def andThen_def)
  have "\<exists>v. ?cb (n, items ! n) = Inr v" if "n < length items" for n
    using readable_nth[OF assms(3) that] by (simp add: chunk_callback_readable)
  then obtain cs where ok: "map_array ?cb (JArray items) = Inr cs"
    using map_array_succeeds[of items ?cb] by blast
  from map_array_Inr[OF ok] flow ok show ?thesis by auto
qed

lemma config_chunks_flow:
  assumes "generateChunks config (title s) (description s)
             (case relatedUrls s of None \<Rightarrow> [] | Some us \<Rightarrow> us) = Inr response"
    and "parseJSON response = Inr (JArray items)" and "list_all readable items"
  shows "\<exists>cs. config_generateChunksFromStory generateChunks s config = Inr cs
           \<and> length cs = length items
           \<and> (\<forall>n<length items. config_chunk_callback s (items ! n) = Inr (cs ! n))"
proof -
  let ?cb = "\<lambda>(n, item). config_chunk_callback s item"
  have flow: "config_generateChunksFromStory generateChunks s config = map_array ?cb (JArray items)"
    using assms(1,2) by (simp add: config_generateChunksFromStory_def andThen_def)
  have "\<exists>v. ?cb (n, items ! n) = Inr v" if "n < length items" for n
    using readable_nth[OF assms(3) that] by (simp add: config_chunk_callback_readable)
  then obtain cs where ok: "map_array ?cb (JArray items) = Inr cs"
    using map_array_succeeds[of items ?cb] by blast
  from map_array_Inr[OF ok] flow ok show ?thesis by auto
qed

lemma config_chunk_callback_image:
  "config_chunk_callback s item = Inr c \<Longrightarrow> gc_image c = image s"
  by (cases "readable item")
     (auto simp: config_chunk_callback_readable config_chunk_callback_unreadable)

lemma story_callback_fields:
  assumes "story_callback u now item = Inr st"
  shows "gs_id st = opt_get item ''id''
         \<and> gs_imageKeywords st = js_or (js_or (opt_get item ''imageKeywords'')
                                     (opt_get item ''image'')) (opt_get item ''title'')"
  using assms
  by (cases "readable item") (auto simp: story_callback_readable story_callback_unreadable)

lemma chunk_callback_fields:
  assumes "chunk_callback u s item = Inr c"
  shows "gc_id c = opt_get item ''id'' \<and> gc_title c = opt_get item ''title''
         \<and> gc_content c = opt_get item ''content''
         \<and> gc_imageKeywords c = js_or (js_or (js_or (opt_get item ''imageKeywords'')
                                     (opt_get item ''image'')) (optional (imageKeywords s)))
                                     (JString (title s))"
  using assms
  by (cases "readable item") (auto simp: chunk_callback_readable chunk_callback_unreadable)

lemma config_chunk_callback_fields:
  assumes "config_chunk_callback s item = Inr c"
  shows "gc_id c = opt_get item ''id'' \<and> gc_title c = opt_get item ''title''
         \<and> gc_content c = opt_get item ''content''"
  using assms
  by (cases "readable item")
     (auto simp: config_chunk_callback_readable config_chunk_callback_unreadable)

lemma map_field:
  "length vs = length items \<Longrightarrow> (\<And>n. n < length items \<Longrightarrow> f (vs ! n) = g (items ! n))
     \<Longrightarrow> map f vs = map g items"
  by (simp add: list_eq_iff_nth_eq)





lemma getImageForKeywords_instance:
  "getImageForKeywords u keywords
     = getImageForKeywords_with (getCachedPhotoUrl u) (\<lambda>k. Inr (getFallbackImage u k)) keywords"
  by (simp add: getImageForKeywords_def getImageForKeywords_with_def)

lemma generateStoriesFromHistory_instance:
  "generateStoriesFromHistory u now generateStories urls
     = generateStoriesFromHistory_with (getCachedPhotoUrl u) (\<lambda>k. Inr (getFallbackImage u k))
         now generateStories urls"
  by (simp add: generateStoriesFromHistory_def generateStoriesFromHistory_with_def
        story_callback_def story_callback_with_def getImageForKeywords_instance)

section \<open>Properties of the transports\<close>

text \<open>
  C3. Whatever the prompt, the system prompt, the credentials and the network, a
  configuration whose provider is none of openai, anthropic and gemini makes
  \<open>sendMessage\<close> fail with the error "Unknown provider: ..." and the list of issued
  requests is empty.
\<close>

theorem sendMessage_unknown_provider:
  assumes "provider config \<notin> {''openai'', ''anthropic'', ''gemini''}"
  shows "sendMessage fetch config prompt systemPrompt
           = (Inl (Error (''Unknown provider: '' @ provider config)), [])"
  using assms by (simp add: sendMessage_def)

theorem sendMessage_unknown_provider_witness:
  "provider \<lparr>provider = ''deepseek'', apiKey = ''k'', model = None\<rparr>
     \<notin> {''openai'', ''anthropic'', ''gemini''}
   \<and> sendMessage (\<lambda>r. Inl TypeError) \<lparr>provider = ''deepseek'', apiKey = ''k'', model = None\<rparr>
        ''hello'' None
      = (Inl (Error ''Unknown provider: deepseek''), [])"
  using sendMessage_unknown_provider
    [of "\<lparr>provider = ''deepseek'', apiKey = ''k'', model = None\<rparr>" "\<lambda>r. Inl TypeError" "''hello''" None]
  by simp

text \<open>
  C7 (amended). Whatever the caller's configuration, prompt and network: each transport
  issues exactly one request; the body that \<open>sendToOpenAI\<close> builds has temperature 0.7
  and max_tokens 2000, the body that \<open>sendToGemini\<close> builds has, under
  generationConfig, temperature 0.7 and maxOutputTokens 2000, and the body that
  \<open>sendToAnthropic\<close> builds has max_tokens 2000 and no temperature field.
\<close>

theorem transport_body_constants:
  "snd (sendToOpenAI fetch msgs config) = [openai_request msgs config]
   \<and> get (body (openai_request msgs config)) ''temperature'' = Inr (JNumber (7 / 10))
   \<and> get (body (openai_request msgs config)) ''max_tokens'' = Inr (JNumber 2000)
   \<and> snd (sendToGemini fetch prompt config) = [gemini_request prompt config]
   \<and> andThen (get (body (gemini_request prompt config)) ''generationConfig'')
         (\<lambda>g. get g ''temperature'') = Inr (JNumber (7 / 10))
   \<and> andThen (get (body (gemini_request prompt config)) ''generationConfig'')
         (\<lambda>g. get g ''maxOutputTokens'') = Inr (JNumber 2000)
   \<and> snd (sendToAnthropic fetch systemPrompt msgs config)
         = [anthropic_request systemPrompt msgs config]
   \<and> get (body (anthropic_request systemPrompt msgs config)) ''max_tokens''
         = Inr (JNumber 2000)
   \<and> get (body (anthropic_request systemPrompt msgs config)) ''temperature''
         = Inr JUndefined"
  by (simp add: sendToOpenAI_def sendToGemini_def sendToAnthropic_def Let_def
        openai_request_def gemini_request_def anthropic_request_def andThen_def)

theorem transport_body_constants_witness:
  "snd (sendToOpenAI offline (JArray [message ''user'' ''hi''])
          \<lparr>provider = ''openai'', apiKey = ''k'', model = Some ''gpt-4o''\<rparr>)
     = [openai_request (JArray [message ''user'' ''hi''])
          \<lparr>provider = ''openai'', apiKey = ''k'', model = Some ''gpt-4o''\<rparr>]
   \<and> get (body (openai_request (JArray [message ''user'' ''hi''])
          \<lparr>provider = ''openai'', apiKey = ''k'', model = Some ''gpt-4o''\<rparr>)) ''temperature''
     = Inr (JNumber (7 / 10))
   \<and> andThen (get (body (gemini_request ''hi''
          \<lparr>provider = ''openai'', apiKey = ''k'', model = Some ''gpt-4o''\<rparr>)) ''generationConfig'')
         (\<lambda>g. get g ''maxOutputTokens'') = Inr (JNumber 2000)
   \<and> get (body (anthropic_request ''be brief'' (JArray [message ''user'' ''hi''])
          \<lparr>provider = ''openai'', apiKey = ''k'', model = Some ''gpt-4o''\<rparr>)) ''max_tokens''
     = Inr (JNumber 2000)"
  using transport_body_constants
    [of offline "JArray [message ''user'' ''hi'']"
        "\<lparr>provider = ''openai'', apiKey = ''k'', model = Some ''gpt-4o''\<rparr>" "''hi''" "''be brief''"]
  by simp

text \<open>
  The claim as the specification states it fails for the third transport: the single
  request that \<open>sendToAnthropic\<close> issues carries no temperature at all.
\<close>

theorem anthropic_temperature_counterexample:
  "snd (sendToAnthropic offline ''be brief'' (JArray [message ''user'' ''hi''])
          \<lparr>provider = ''anthropic'', apiKey = ''k'', model = None\<rparr>)
     = [anthropic_request ''be brief'' (JArray [message ''user'' ''hi''])
          \<lparr>provider = ''anthropic'', apiKey = ''k'', model = None\<rparr>]
   \<and> get (body (anthropic_request ''be brief'' (JArray [message ''user'' ''hi''])
          \<lparr>provider = ''anthropic'', apiKey = ''k'', model = None\<rparr>)) ''temperature''
     \<noteq> Inr (JNumber (7 / 10))"
  by (simp add: sendToAnthropic_def Let_def anthropic_request_def)

section \<open>Properties of parseJSON\<close>







section \<open>Properties of image resolution and of the generation flows\<close>




text \<open>
  C2 (amended). When the provider's reply decodes to an array of records, both variants
  of generateChunksFromStory return exactly one chunk per record, in the provider's
  order, each with the record's id, title and content: five for five records, the short
  list for fewer, and all of them, without truncation, for more. No chunk is invented.
\<close>

theorem chunks_one_per_record:
  assumes "parseJSON response = Inr (JArray items)" and "list_all readable items"
    and "generateChunks (title s) (description s)
           (case relatedUrls s of None \<Rightarrow> [] | Some us \<Rightarrow> us) (imageKeywords s) = Inr response"
    and "config_generateChunks config (title s) (description s)
           (case relatedUrls s of None \<Rightarrow> [] | Some us \<Rightarrow> us) = Inr response"
  shows "(\<exists>cs. generateChunksFromStory u generateChunks s = Inr cs
            \<and> length cs = length items
            \<and> map gc_id cs = map (\<lambda>item. opt_get item ''id'') items
            \<and> map gc_title cs = map (\<lambda>item. opt_get item ''title'') items
            \<and> map gc_content cs = map (\<lambda>item. opt_get item ''content'') items)
       \<and> (\<exists>cs. config_generateChunksFromStory config_generateChunks s config = Inr cs
            \<and> length cs = length items
            \<and> map gc_id cs = map (\<lambda>item. opt_get item ''id'') items
            \<and> map gc_title cs = map (\<lambda>item. opt_get item ''title'') items
            \<and> map gc_content cs = map (\<lambda>item. opt_get item ''content'') items)"
proof
  from chunks_flow[where generateChunks = generateChunks and s = s and u = u
         and response = response and items = items] assms(1,2,3)
  obtain cs
    where flow: "generateChunksFromStory u generateChunks s = Inr cs"
      and len: "length cs = length items"
      and nth: "\<And>n. n < length items \<Longrightarrow> chunk_callback u s (items ! n) = Inr (cs ! n)"
    by blast
  have "map gc_id cs = map (\<lambda>item. opt_get item ''id'') items"
    using chunk_callback_fields[OF nth] by (intro map_field[OF len]) simp
  moreover have "map gc_title cs = map (\<lambda>item. opt_get item ''title'') items"
    using chunk_callback_fields[OF nth] by (intro map_field[OF len]) simp
  moreover have "map gc_content cs = map (\<lambda>item. opt_get item ''content'') items"
    using chunk_callback_fields[OF nth] by (intro map_field[OF len]) simp
  ultimately show "\<exists>cs. generateChunksFromStory u generateChunks s = Inr cs
            \<and> length cs = length items
            \<and> map gc_id cs = map (\<lambda>item. opt_get item ''id'') items
            \<and> map gc_title cs = map (\<lambda>item. opt_get item ''title'') items
            \<and> map gc_content cs = map (\<lambda>item. opt_get item ''content'') items"
    using flow len by blast
next
  from config_chunks_flow[where generateChunks = config_generateChunks and s = s
         and config = config and response = response and items = items] assms(1,2,4)
  obtain cs
    where flow: "config_generateChunksFromStory config_generateChunks s config = Inr cs"
      and len: "length cs = length items"
      and nth: "\<And>n. n < length items \<Longrightarrow> config_chunk_callback s (items ! n) = Inr (cs ! n)"
    by blast
  have "map gc_id cs = map (\<lambda>item. opt_get item ''id'') items"
    using config_chunk_callback_fields[OF nth] by (intro map_field[OF len]) simp
  moreover have "map gc_title cs = map (\<lambda>item. opt_get item ''title'') items"
    using config_chunk_callback_fields[OF nth] by (intro map_field[OF len]) simp
  moreover have "map gc_content cs = map (\<lambda>item. opt_get item ''content'') items"
    using config_chunk_callback_fields[OF nth] by (intro map_field[OF len]) simp
  ultimately show "\<exists>cs. config_generateChunksFromStory config_generateChunks s config = Inr cs
            \<and> length cs = length items
            \<and> map gc_id cs = map (\<lambda>item. opt_get item ''id'') items
            \<and> map gc_title cs = map (\<lambda>item. opt_get item ''title'') items
            \<and> map gc_content cs = map (\<lambda>item. opt_get item ''content'') items"
    using flow len by blast
qed

theorem chunks_one_per_record_witness:
  "parseJSON short_reply
     = Inr (JArray [JObject [(''id'', JNumber 1), (''title'', JString ''Core Concept''),
                             (''content'', JString ''c1'')],
                    JObject [(''id'', JNumber 2), (''title'', JString ''Historical Context''),
                             (''content'', JString ''c2'')]])
   \<and> map_sum id length
         (generateChunksFromStory failing_unsplash (\<lambda>t d us k. Inr short_reply) ai_story) = Inr 2
   \<and> map_sum id (map gc_title)
         (config_generateChunksFromStory (\<lambda>c t d us. Inr short_reply) ai_story openai_config)
       = Inr [JString ''Core Concept'', JString ''Historical Context'']"
proof -
  let ?items = "[JObject [(''id'', JNumber 1), (''title'', JString ''Core Concept''),
                          (''content'', JString ''c1'')],
                 JObject [(''id'', JNumber 2), (''title'', JString ''Historical Context''),
                          (''content'', JString ''c2'')]]"
  have parsed: "parseJSON short_reply = Inr (JArray ?items)"
    by code_simp
  have records: "list_all readable ?items"
    by (simp add: readable_def)
  from chunks_one_per_record
         [where generateChunks = "\<lambda>t d us k. Inr short_reply"
            and config_generateChunks = "\<lambda>c t d us. Inr short_reply"
            and s = ai_story and u = failing_unsplash and config = openai_config,
          OF parsed records]
  have "(\<exists>cs. generateChunksFromStory failing_unsplash (\<lambda>t d us k. Inr short_reply) ai_story = Inr cs
            \<and> length cs = length ?items)
      \<and> (\<exists>cs. config_generateChunksFromStory (\<lambda>c t d us. Inr short_reply) ai_story openai_config
                 = Inr cs
            \<and> map gc_title cs = map (\<lambda>item. opt_get item ''title'') ?items)"
    by blast
  with parsed show ?thesis by (auto simp: opt_get_def)
qed

text \<open>
  The claim as stated fails: six records give six chunks in both variants, nothing is
  cut off after the fifth.
\<close>

theorem chunks_not_truncated_counterexample:
  "map_sum id (map gc_id)
     (generateChunksFromStory failing_unsplash (\<lambda>t d us k. Inr long_reply) ai_story)
     = Inr [JNumber 1, JNumber 2, JNumber 3, JNumber 4, JNumber 5, JNumber 6]
   \<and> map_sum id (map gc_id)
     (config_generateChunksFromStory (\<lambda>c t d us. Inr long_reply) ai_story openai_config)
     = Inr [JNumber 1, JNumber 2, JNumber 3, JNumber 4, JNumber 5, JNumber 6]"
  by code_simp




text \<open>
  C9 (amended). When the provider's reply decodes to an array of records, the story and
  the chunk pipeline build one entity per record and give it the id that JSON.parse
  decoded for the record, as it is, a missing id as \<^verbatim>\<open>undefined\<close>: no fallback id is
  assigned, and the ids of the batch are unique exactly when the decoded ids of the
  records are.
\<close>

theorem ids_are_copied:
  assumes "parseJSON response = Inr (JArray items)" and "list_all readable items"
    and "generateStories urls = Inr response"
    and "generateChunks (title s) (description s)
           (case relatedUrls s of None \<Rightarrow> [] | Some us \<Rightarrow> us) (imageKeywords s) = Inr response"
  shows "(\<exists>stories. generateStoriesFromHistory u now generateStories urls = Inr stories
            \<and> map gs_id stories = map (\<lambda>item. opt_get item ''id'') items
            \<and> distinct (map gs_id stories) = distinct (map (\<lambda>item. opt_get item ''id'') items))
       \<and> (\<exists>cs. generateChunksFromStory u generateChunks s = Inr cs
            \<and> map gc_id cs = map (\<lambda>item. opt_get item ''id'') items
            \<and> distinct (map gc_id cs) = distinct (map (\<lambda>item. opt_get item ''id'') items))"
proof
  from stories_flow[where generateStories = generateStories and urls = urls and u = u
         and now = now and response = response and items = items] assms(1,2,3)
  obtain stories
    where flow: "generateStoriesFromHistory u now generateStories urls = Inr stories"
      and len: "length stories = length items"
      and nth: "\<And>k. k < length items \<Longrightarrow> story_callback u (now k) (items ! k) = Inr (stories ! k)"
    by blast
  have "map gs_id stories = map (\<lambda>item. opt_get item ''id'') items"
    using story_callback_fields[OF nth] by (intro map_field[OF len]) simp
  with flow show "\<exists>stories. generateStoriesFromHistory u now generateStories urls = Inr stories
            \<and> map gs_id stories = map (\<lambda>item. opt_get item ''id'') items
            \<and> distinct (map gs_id stories) = distinct (map (\<lambda>item. opt_get item ''id'') items)"
    by auto
next
  from chunks_flow[where generateChunks = generateChunks and s = s and u = u
         and response = response and items = items] assms(1,2,4)
  obtain cs
    where flow: "generateChunksFromStory u generateChunks s = Inr cs"
      and len: "length cs = length items"
      and nth: "\<And>k. k < length items \<Longrightarrow> chunk_callback u s (items ! k) = Inr (cs ! k)"
    by blast
  have "map gc_id cs = map (\<lambda>item. opt_get item ''id'') items"
    using chunk_callback_fields[OF nth] by (intro map_field[OF len]) simp
  with flow show "\<exists>cs. generateChunksFromStory u generateChunks s = Inr cs
            \<and> map gc_id cs = map (\<lambda>item. opt_get item ''id'') items
            \<and> distinct (map gc_id cs) = distinct (map (\<lambda>item. opt_get item ''id'') items)"
    by auto
qed

theorem ids_are_copied_witness:
  "parseJSON rounded_ids_reply
     = Inr (JArray [JObject [(''id'', JNumber 9007199254740992), (''title'', JString ''A'')],
                    JObject [(''id'', JNumber 9007199254740992), (''title'', JString ''B'')]])
   \<and> map_sum id (map gs_id)
         (generateStoriesFromHistory working_unsplash (\<lambda>n. n)
            (\<lambda>urls. Inr rounded_ids_reply) [])
       = Inr [JNumber 9007199254740992, JNumber 9007199254740992]
   \<and> map_sum id (\<lambda>cs. distinct (map gc_id cs))
         (generateChunksFromStory working_unsplash (\<lambda>t d us k. Inr rounded_ids_reply) ai_story)
       = Inr False"
proof -
  let ?items = "[JObject [(''id'', JNumber 9007199254740992), (''title'', JString ''A'')],
                 JObject [(''id'', JNumber 9007199254740992), (''title'', JString ''B'')]]"
  have parsed: "parseJSON rounded_ids_reply = Inr (JArray ?items)"
    by code_simp
  have records: "list_all readable ?items"
    by (simp add: readable_def)
  from ids_are_copied
         [where generateStories = "\<lambda>urls. Inr rounded_ids_reply" and urls = "[]"
            and generateChunks = "\<lambda>t d us k. Inr rounded_ids_reply" and now = "\<lambda>n. n"
            and s = ai_story and u = working_unsplash,
          OF parsed records]
  have "(\<exists>stories. generateStoriesFromHistory working_unsplash (\<lambda>n. n)
                      (\<lambda>urls. Inr rounded_ids_reply) [] = Inr stories
            \<and> map gs_id stories = map (\<lambda>item. opt_get item ''id'') ?items)
      \<and> (\<exists>cs. generateChunksFromStory working_unsplash
                 (\<lambda>t d us k. Inr rounded_ids_reply) ai_story = Inr cs
            \<and> distinct (map gc_id cs) = distinct (map (\<lambda>item. opt_get item ''id'') ?items))"
    by blast
  with parsed show ?thesis by (auto simp: opt_get_def)
qed

text \<open>
  The claim as stated fails: a repeated id stays repeated and a missing id stays
  \<^verbatim>\<open>undefined\<close>, in stories and in chunks.
\<close>

theorem duplicate_ids_counterexample:
  "map_sum id (map gs_id)
     (generateStoriesFromHistory failing_unsplash (\<lambda>n. n) (\<lambda>urls. Inr duplicate_reply)
        [''https://a.example.com/x''])
     = Inr [JNumber 1, JNumber 1, JUndefined]
   \<and> map_sum id (map gc_id)
     (generateChunksFromStory failing_unsplash (\<lambda>t d us k. Inr duplicate_chunks_reply) ai_story)
     = Inr [JNumber 2, JNumber 2]"
  by code_simp

text \<open>
  C10. In the variant of generateChunksFromStory that takes a configuration, every chunk
  of a returned list has the image of the story that was passed in.
\<close>

theorem config_chunks_share_story_image:
  assumes "config_generateChunksFromStory generateChunks s config = Inr cs"
  shows "\<forall>c\<in>set cs. gc_image c = image s"
proof
  fix c assume c: "c \<in> set cs"
  let ?cb = "\<lambda>(n, item). config_chunk_callback s item"
  from assms obtain parsed where "map_array ?cb parsed = Inr cs"
    by (auto simp: config_generateChunksFromStory_def andThen_def split: sum.splits)
  then obtain items where "Promise_all (map ?cb (enumerate 0 items)) = Inr cs"
    by (cases parsed) (simp_all add: map_array_def)
  then have "map ?cb (enumerate 0 items) = map Inr cs"
    by (rule Promise_all_Inr)
  with c have "Inr c \<in> set (map ?cb (enumerate 0 items))"
    by simp
  then obtain n item where "config_chunk_callback s item = Inr c"
    by auto
  then show "gc_image c = image s"
    by (rule config_chunk_callback_image)
qed

theorem config_chunks_share_story_image_witness:
  "config_generateChunksFromStory (\<lambda>c t d us. Inr short_reply) ai_story openai_config
     = Inr [\<lparr>gc_id = JNumber 1, gc_title = JString ''Core Concept'', gc_content = JString ''c1'',
             gc_image = ''https://images.unsplash.com/photo-1677442136019-21780ecad995?w=800'',
             gc_imageKeywords = JUndefined\<rparr>,
            \<lparr>gc_id = JNumber 2, gc_title = JString ''Historical Context'',
             gc_content = JString ''c2'',
             gc_image = ''https://images.unsplash.com/photo-1677442136019-21780ecad995?w=800'',
             gc_imageKeywords = JUndefined\<rparr>]
   \<and> image ai_story = ''https://images.unsplash.com/photo-1677442136019-21780ecad995?w=800''"
proof -
  let ?cs = "[\<lparr>gc_id = JNumber 1, gc_title = JString ''Core Concept'', gc_content = JString ''c1'',
             gc_image = image ai_story, gc_imageKeywords = JUndefined\<rparr>,
            \<lparr>gc_id = JNumber 2, gc_title = JString ''Historical Context'',
             gc_content = JString ''c2'', gc_image = image ai_story,
             gc_imageKeywords = JUndefined\<rparr>]"
  have flow: "config_generateChunksFromStory (\<lambda>c t d us. Inr short_reply) ai_story openai_config
                = Inr ?cs"
    by code_simp
  from config_chunks_share_story_image[OF flow]
  have "\<forall>c\<in>set ?cs. gc_image c = image ai_story" .
  with flow show ?thesis
    by (simp add: ai_story_def)
qed

section \<open>Properties of the chat page\<close>

text \<open>
  C5 (amended). With a story loaded, no reply pending and no provider configured, sending
  the message "why does this matter" appends the user's message and one reply, the fixed
  text of the branch for why and reason, which is not empty, and issues no request.
\<close>

theorem why_reply_without_provider:
  assumes "story st = Some s" and "\<not> isTyping st" and "input st = ''why does this matter''"
  shows "handleSend generateChatResponse None t1 t2 st
           = (st\<lparr>messages := messages st @
                   [\<lparr>msg_id = length (messages st) + 1, msg_text = ''why does this matter'',
                     sender = User, timestamp = t1\<rparr>,
                    \<lparr>msg_id = length (messages st) + 2,
                     msg_text = ''That's an insightful question! This topic is important because it impacts how we think about and approach related concepts. Each chunk revealed different layers of understanding.'',
                     sender = Bot, timestamp = t2\<rparr>],
                  input := [], isTyping := False\<rparr>, [])
       \<and> msg_text (last (messages (fst (handleSend generateChatResponse None t1 t2 st)))) \<noteq> []
       \<and> snd (handleSend generateChatResponse None t1 t2 st) = []"
proof -
  have nonempty: "trim ''why does this matter'' \<noteq> []"
    by code_simp
  have reply: "generateFallbackResponse ''why does this matter'' (title s)
     = ''That's an insightful question! This topic is important because it impacts how we think about and approach related concepts. Each chunk revealed different layers of understanding.''"
    by code_simp
  show ?thesis
    using assms nonempty by (simp add: handleSend_def reply)
qed

theorem why_reply_without_provider_witness:
  "story why_page = Some ai_story \<and> \<not> isTyping why_page
   \<and> input why_page = ''why does this matter''
   \<and> snd (handleSend unreachable_chat None 1 2 why_page) = []
   \<and> map sender (messages (fst (handleSend unreachable_chat None 1 2 why_page))) = [User, Bot]"
proof -
  have a: "story why_page = Some ai_story" and b: "\<not> isTyping why_page"
    and c: "input why_page = ''why does this matter''" and d: "messages why_page = []"
    by (simp_all add: why_page_def)
  from why_reply_without_provider[OF a b c, of unreachable_chat 1 2] a b c d
  show ?thesis by simp
qed

text \<open>
  The claim as stated fails: for the story titled "AI Revolution" the reply does not
  contain the title.
\<close>

theorem why_reply_title_counterexample:
  "title ai_story = ''AI Revolution''
   \<and> snd (handleSend unreachable_chat None 1 2 why_page) = []
   \<and> \<not> string_includes
         (msg_text (last (messages (fst (handleSend unreachable_chat None 1 2 why_page)))))
         ''AI Revolution''"
  by code_simp

end
